theory Spec2Isabelle
  imports Main "HOL-Library.AList" "HOL-Library.Sublist" "HOL-Library.List_Lexorder"
    "HOL-Library.Char_ord"
begin

section \<open>Python values\<close>

text \<open>
  The values the server builds and passes around: \<open>None\<close>, \<open>str\<close>, \<open>int\<close>, lists and dicts
  with string keys. A \<open>str\<close> is the list of its UTF-8 bytes; comparing two such lists byte by
  byte (the order of \<open>HOL-Library.List_Lexorder\<close> over \<open>HOL-Library.Char_ord\<close>) is the
  order of Python's \<open>sorted\<close> on \<open>str\<close>, since UTF-8 keeps the order of code points.
  A dict is an association list in insertion order with distinct keys: \<open>dict_get\<close> looks a
  key up, \<open>d.get(k)\<close> is \<open>py_get\<close> (\<open>None\<close> for a missing key), \<open>k in d\<close> is \<open>dict_has\<close>,
  \<open>d.keys()\<close> is \<open>dict_keys\<close>, \<open>d[k] = v\<close> is \<open>AList.update\<close> (the value is replaced in place,
  a new key goes last) and \<open>d.update(other)\<close> is \<open>dict_update\<close>.
\<close>

datatype pyval =
  PNone | PStr string | PInt int | PList "pyval list" | PDict "(string \<times> pyval) list"

type_synonym pydict = "(string \<times> pyval) list"

definition dict_get :: "pydict \<Rightarrow> string \<Rightarrow> pyval option" where
  "dict_get d k = map_of d k"

definition py_get :: "pydict \<Rightarrow> string \<Rightarrow> pyval" where
  "py_get d k = (case dict_get d k of None \<Rightarrow> PNone | Some v \<Rightarrow> v)"

definition dict_keys :: "pydict \<Rightarrow> string list" where
  "dict_keys d = map fst d"

definition dict_has :: "string \<Rightarrow> pydict \<Rightarrow> bool" where
  "dict_has k d = (k \<in> set (dict_keys d))"

definition dict_update :: "pydict \<Rightarrow> pydict \<Rightarrow> pydict" where
  "dict_update d other = fold (\<lambda>kv acc. AList.update (fst kv) (snd kv) acc) other d"

definition opt_str :: "string option \<Rightarrow> pyval" where
  "opt_str t = (case t of None \<Rightarrow> PNone | Some s \<Rightarrow> PStr s)"

text \<open>\<open>str(n)\<close> of an \<open>int\<close>: its decimal digits, with a sign when negative.\<close>

function str_nat :: "nat \<Rightarrow> string" where
  "str_nat n =
     (if n < 10 then [''0123456789'' ! n] else str_nat (n div 10) @ [''0123456789'' ! (n mod 10)])"
  by pat_completeness auto
termination
  by (relation "measure id") auto

declare str_nat.simps [simp del]

definition str_int :: "int \<Rightarrow> string" where
  "str_int i = (if i < 0 then CHR ''-'' # str_nat (nat (- i)) else str_nat (nat i))"

text \<open>
  An exception, as far as the server looks at it: \<open>type(e).__name__\<close>, \<open>str(e)\<close> and the text
  \<open>traceback.format_exc()\<close> gives while it is handled.
\<close>

datatype py_exception =
  PyException (exc_type: string) (exc_str: string) (exc_traceback: string)

section \<open>The element tree of \<open>xml.etree.ElementTree\<close>\<close>

text \<open>
  An element has a tag, a text (\<open>None\<close> when the element is empty) and its child elements
  in document order. Attributes and tails are never read by the server. The paths the
  server passes to \<open>find\<close>, \<open>findall\<close> and \<open>findtext\<close> are constants made of \<open>.\<close>, tag names
  and \<open>*\<close>, separated by \<open>/\<close>; they are written here as the list of their steps, so
  \<open>./whois/krdomain\<close> is \<open>[Self, Child ''whois'', Child ''krdomain'']\<close>. \<open>findall\<close> narrows
  the list of context elements step by step, \<open>find\<close> is its first element, and \<open>findtext\<close>
  returns the empty string for an element that is found with no text.
\<close>

datatype element = Element (tag: string) (etext: "string option") (children: "element list")

datatype step = Self | Child string | Star

fun select :: "step \<Rightarrow> element list \<Rightarrow> element list" where
  "select Self ctx = ctx"
| "select (Child t) ctx = concat (map (\<lambda>e. filter (\<lambda>c. tag c = t) (children e)) ctx)"
| "select Star ctx = concat (map children ctx)"

definition et_findall :: "element \<Rightarrow> step list \<Rightarrow> element list" where
  "et_findall e path = fold select path [e]"

definition et_find :: "element \<Rightarrow> step list \<Rightarrow> element option" where
  "et_find e path = (case et_findall e path of [] \<Rightarrow> None | x # _ \<Rightarrow> Some x)"

definition et_findtext :: "element \<Rightarrow> step list \<Rightarrow> string option" where
  "et_findtext e path =
     (case et_find e path of
        None \<Rightarrow> None
      | Some x \<Rightarrow> (case etext x of None \<Rightarrow> Some [] | Some t \<Rightarrow> Some t))"

section \<open>Message texts\<close>

text \<open>
  The Korean message texts of the source, as their UTF-8 bytes. In the order below they
  read: "an API service key is required.", "error during the API call: ",
  "API call failed: HTTP ", "the krdomain tag cannot be found.", "XML parsing error: ",
  "the whois tag cannot be found.", "there is no data to save.",
  "error while saving the CSV: " and "error during the bulk analysis: ".
\<close>

definition msg_key_required :: string where
  "msg_key_required = ''API '' @ [CHR 0xEC, CHR 0x84, CHR 0x9C, CHR 0xEB, CHR 0xB9, CHR 0x84,
     CHR 0xEC, CHR 0x8A, CHR 0xA4] @ '' '' @ [CHR 0xED, CHR 0x82, CHR 0xA4, CHR 0xEA, CHR 0xB0,
     CHR 0x80] @ '' '' @ [CHR 0xED, CHR 0x95, CHR 0x84, CHR 0xEC, CHR 0x9A, CHR 0x94, CHR 0xED,
     CHR 0x95, CHR 0xA9, CHR 0xEB, CHR 0x8B, CHR 0x88, CHR 0xEB, CHR 0x8B, CHR 0xA4] @ ''.''"

definition msg_api_exception :: string where
  "msg_api_exception = ''API '' @ [CHR 0xED, CHR 0x98, CHR 0xB8, CHR 0xEC, CHR 0xB6, CHR 0x9C]
     @ '' '' @ [CHR 0xEC, CHR 0xA4, CHR 0x91] @ '' '' @ [CHR 0xEC, CHR 0x98, CHR 0xA4, CHR 0xEB,
     CHR 0xA5, CHR 0x98] @ '': ''"

definition msg_api_failed_http :: string where
  "msg_api_failed_http = ''API '' @ [CHR 0xED, CHR 0x98, CHR 0xB8, CHR 0xEC, CHR 0xB6, CHR 0x9C]
     @ '' '' @ [CHR 0xEC, CHR 0x8B, CHR 0xA4, CHR 0xED, CHR 0x8C, CHR 0xA8] @ '': HTTP ''"

definition msg_krdomain_not_found :: string where
  "msg_krdomain_not_found = ''krdomain '' @ [CHR 0xED, CHR 0x83, CHR 0x9C, CHR 0xEA, CHR 0xB7,
     CHR 0xB8, CHR 0xEB, CHR 0xA5, CHR 0xBC] @ '' '' @ [CHR 0xEC, CHR 0xB0, CHR 0xBE, CHR 0xEC,
     CHR 0x9D, CHR 0x84] @ '' '' @ [CHR 0xEC, CHR 0x88, CHR 0x98] @ '' '' @ [CHR 0xEC, CHR 0x97,
     CHR 0x86, CHR 0xEC, CHR 0x8A, CHR 0xB5, CHR 0xEB, CHR 0x8B, CHR 0x88, CHR 0xEB, CHR 0x8B,
     CHR 0xA4] @ ''.''"

definition msg_xml_parse_error :: string where
  "msg_xml_parse_error = ''XML '' @ [CHR 0xED, CHR 0x8C, CHR 0x8C, CHR 0xEC, CHR 0x8B, CHR 0xB1]
     @ '' '' @ [CHR 0xEC, CHR 0x98, CHR 0xA4, CHR 0xEB, CHR 0xA5, CHR 0x98] @ '': ''"

definition msg_whois_not_found :: string where
  "msg_whois_not_found = ''whois '' @ [CHR 0xED, CHR 0x83, CHR 0x9C, CHR 0xEA, CHR 0xB7,
     CHR 0xB8, CHR 0xEB, CHR 0xA5, CHR 0xBC] @ '' '' @ [CHR 0xEC, CHR 0xB0, CHR 0xBE, CHR 0xEC,
     CHR 0x9D, CHR 0x84] @ '' '' @ [CHR 0xEC, CHR 0x88, CHR 0x98] @ '' '' @ [CHR 0xEC, CHR 0x97,
     CHR 0x86, CHR 0xEC, CHR 0x8A, CHR 0xB5, CHR 0xEB, CHR 0x8B, CHR 0x88, CHR 0xEB, CHR 0x8B,
     CHR 0xA4] @ ''.''"

definition msg_no_data :: string where
  "msg_no_data = [CHR 0xEC, CHR 0xA0, CHR 0x80, CHR 0xEC, CHR 0x9E, CHR 0xA5, CHR 0xED, CHR 0x95,
     CHR 0xA0] @ '' '' @ [CHR 0xEB, CHR 0x8D, CHR 0xB0, CHR 0xEC, CHR 0x9D, CHR 0xB4, CHR 0xED,
     CHR 0x84, CHR 0xB0, CHR 0xEA, CHR 0xB0, CHR 0x80] @ '' '' @ [CHR 0xEC, CHR 0x97, CHR 0x86,
     CHR 0xEC, CHR 0x8A, CHR 0xB5, CHR 0xEB, CHR 0x8B, CHR 0x88, CHR 0xEB, CHR 0x8B, CHR 0xA4]
     @ ''.''"

definition msg_csv_error :: string where
  "msg_csv_error = ''CSV '' @ [CHR 0xEC, CHR 0xA0, CHR 0x80, CHR 0xEC, CHR 0x9E, CHR 0xA5]
     @ '' '' @ [CHR 0xEC, CHR 0xA4, CHR 0x91] @ '' '' @ [CHR 0xEC, CHR 0x98, CHR 0xA4, CHR 0xEB,
     CHR 0xA5, CHR 0x98] @ '': ''"

definition msg_bulk_error :: string where
  "msg_bulk_error = [CHR 0xEB, CHR 0x8C, CHR 0x80, CHR 0xEB, CHR 0x9F, CHR 0x89] @ '' ''
     @ [CHR 0xEB, CHR 0xB6, CHR 0x84, CHR 0xEC, CHR 0x84, CHR 0x9D] @ '' '' @ [CHR 0xEC, CHR 0xA4,
     CHR 0x91] @ '' '' @ [CHR 0xEC, CHR 0x98, CHR 0xA4, CHR 0xEB, CHR 0xA5, CHR 0x98] @ '': ''"

definition msg_saved_count :: string where
  "msg_saved_count = [CHR 0xEA, CHR 0xB0, CHR 0x9C] @ '' '' @ [CHR 0xEA, CHR 0xB2, CHR 0xB0,
     CHR 0xEA, CHR 0xB3, CHR 0xBC, CHR 0xEB, CHR 0xA5, CHR 0xBC] @ '' ''"

definition msg_saved_file :: string where
  "msg_saved_file = [CHR 0xEC, CHR 0x97, CHR 0x90] @ '' '' @ [CHR 0xEC, CHR 0xA0, CHR 0x80,
     CHR 0xEC, CHR 0x9E, CHR 0xA5, CHR 0xED, CHR 0x96, CHR 0x88, CHR 0xEC, CHR 0x8A, CHR 0xB5,
     CHR 0xEB, CHR 0x8B, CHR 0x88, CHR 0xEB, CHR 0x8B, CHR 0xA4] @ ''.''"

section \<open>The record normalizer\<close>

text \<open>
  \<open>ET.fromstring\<close> is the standard library's parser: it is a parameter of the two
  normalizers, returning the root element or, for a document that is not well formed, the
  text of the \<open>ParseError\<close> it raises (\<open>Inl\<close>).
\<close>

type_synonym xml_parser = "string \<Rightarrow> string + element"

text \<open>\<open>get_xml_text\<close> (both files): every call site passes a plain tag name.\<close>

definition get_xml_text :: "element \<Rightarrow> string \<Rightarrow> string option" where
  "get_xml_text root tag_name =
     (case et_find root [Child tag_name] of None \<Rightarrow> None | Some el \<Rightarrow> etext el)"

text \<open>\<open>parse_domain_whois_xml\<close> of \<open>whois_mcp_server/whois_server.py\<close>.\<close>

definition parse_domain_whois_xml :: "xml_parser \<Rightarrow> string \<Rightarrow> string \<Rightarrow> pydict" where
  "parse_domain_whois_xml fromstring xml_content query =
     (case fromstring xml_content of
        Inl e \<Rightarrow> [(''error'', PStr (msg_xml_parse_error @ e)), (''query'', PStr query)]
      | Inr root \<Rightarrow>
          (case et_find root [Self, Child ''whois'', Child ''krdomain''] of
             None \<Rightarrow> [(''error'', PStr msg_krdomain_not_found), (''query'', PStr query)]
           | Some krdomain \<Rightarrow>
               [(''query'', PStr query),
                (''name'', opt_str (get_xml_text krdomain ''name'')),
                (''regName'', opt_str (get_xml_text krdomain ''regName'')),
                (''addr'', opt_str (get_xml_text krdomain ''addr'')),
                (''post'', opt_str (get_xml_text krdomain ''post'')),
                (''adminName'', opt_str (get_xml_text krdomain ''adminName'')),
                (''adminEmail'', opt_str (get_xml_text krdomain ''adminEmail'')),
                (''adminPhone'', opt_str (get_xml_text krdomain ''adminPhone'')),
                (''lastUpdatedDate'', opt_str (get_xml_text krdomain ''lastUpdatedDate'')),
                (''regDate'', opt_str (get_xml_text krdomain ''regDate'')),
                (''endDate'', opt_str (get_xml_text krdomain ''endDate'')),
                (''infoYN'', opt_str (get_xml_text krdomain ''infoYN'')),
                (''domainStatus'',
                   PList (map (\<lambda>e. opt_str (etext e)) (et_findall krdomain [Child ''domainStatus'']))),
                (''agency'', opt_str (get_xml_text krdomain ''agency'')),
                (''agency_url'', opt_str (get_xml_text krdomain ''agency_url'')),
                (''e_regName'', opt_str (get_xml_text krdomain ''e_regName'')),
                (''e_addr'', opt_str (get_xml_text krdomain ''e_addr'')),
                (''e_adminName'', opt_str (get_xml_text krdomain ''e_adminName'')),
                (''e_agency'', opt_str (get_xml_text krdomain ''e_agency'')),
                (''dnssec'', opt_str (get_xml_text krdomain ''dnssec'')),
                (''ns1'', PList (map (\<lambda>e. opt_str (etext e)) (et_findall krdomain [Child ''ns1'']))),
                (''ip1'', PList (map (\<lambda>e. opt_str (etext e)) (et_findall krdomain [Child ''ip1''])))]))"

text \<open>
  The legacy server \<open>src/whois_server.py\<close> has its own \<open>get_xml_text\<close> and its own parser,
  \<open>parse_whois_xml\<close>; both are translated from that file.
\<close>

definition legacy_get_xml_text :: "element \<Rightarrow> string \<Rightarrow> string option" where
  "legacy_get_xml_text root tag_name =
     (case et_find root [Child tag_name] of None \<Rightarrow> None | Some el \<Rightarrow> etext el)"

definition parse_whois_xml :: "xml_parser \<Rightarrow> string \<Rightarrow> string \<Rightarrow> pydict" where
  "parse_whois_xml fromstring xml_content query =
     (case fromstring xml_content of
        Inl e \<Rightarrow> [(''error'', PStr (msg_xml_parse_error @ e)), (''query'', PStr query)]
      | Inr root \<Rightarrow>
          (case et_find root [Self, Child ''whois'', Child ''krdomain''] of
             None \<Rightarrow> [(''error'', PStr msg_krdomain_not_found), (''query'', PStr query)]
           | Some krdomain \<Rightarrow>
               [(''query'', PStr query),
                (''name'', opt_str (legacy_get_xml_text krdomain ''name'')),
                (''regName'', opt_str (legacy_get_xml_text krdomain ''regName'')),
                (''addr'', opt_str (legacy_get_xml_text krdomain ''addr'')),
                (''post'', opt_str (legacy_get_xml_text krdomain ''post'')),
                (''adminName'', opt_str (legacy_get_xml_text krdomain ''adminName'')),
                (''adminEmail'', opt_str (legacy_get_xml_text krdomain ''adminEmail'')),
                (''adminPhone'', opt_str (legacy_get_xml_text krdomain ''adminPhone'')),
                (''lastUpdatedDate'', opt_str (legacy_get_xml_text krdomain ''lastUpdatedDate'')),
                (''regDate'', opt_str (legacy_get_xml_text krdomain ''regDate'')),
                (''endDate'', opt_str (legacy_get_xml_text krdomain ''endDate'')),
                (''infoYN'', opt_str (legacy_get_xml_text krdomain ''infoYN'')),
                (''domainStatus'',
                   PList (map (\<lambda>e. opt_str (etext e)) (et_findall krdomain [Child ''domainStatus'']))),
                (''agency'', opt_str (legacy_get_xml_text krdomain ''agency'')),
                (''agency_url'', opt_str (legacy_get_xml_text krdomain ''agency_url'')),
                (''e_regName'', opt_str (legacy_get_xml_text krdomain ''e_regName'')),
                (''e_addr'', opt_str (legacy_get_xml_text krdomain ''e_addr'')),
                (''e_adminName'', opt_str (legacy_get_xml_text krdomain ''e_adminName'')),
                (''e_agency'', opt_str (legacy_get_xml_text krdomain ''e_agency'')),
                (''dnssec'', opt_str (legacy_get_xml_text krdomain ''dnssec'')),
                (''ns1'', PList (map (\<lambda>e. opt_str (etext e)) (et_findall krdomain [Child ''ns1'']))),
                (''ip1'', PList (map (\<lambda>e. opt_str (etext e)) (et_findall krdomain [Child ''ip1''])))]))"

text \<open>
  \<open>parse_ip_whois_xml\<close>. Each of its eight loops
  \<open>for child in whois_elem.findall(path): result[prefix + child.tag] = child.text\<close>
  is one \<open>flatten_children\<close>.
\<close>

definition flatten_children :: "string \<Rightarrow> element list \<Rightarrow> pydict \<Rightarrow> pydict" where
  "flatten_children pre cs result =
     fold (\<lambda>child r. AList.update (pre @ tag child) (opt_str (etext child)) r) cs result"

definition parse_ip_whois_xml :: "xml_parser \<Rightarrow> string \<Rightarrow> string \<Rightarrow> pydict" where
  "parse_ip_whois_xml fromstring xml_content query =
     (case fromstring xml_content of
        Inl e \<Rightarrow> [(''error'', PStr (msg_xml_parse_error @ e)), (''query'', PStr query)]
      | Inr root \<Rightarrow>
          (case et_find root [Self, Child ''whois''] of
             None \<Rightarrow> [(''error'', PStr msg_whois_not_found), (''query'', PStr query)]
           | Some whois_elem \<Rightarrow>
               (let result =
                      [(''query'', opt_str (et_findtext whois_elem [Child ''query''])),
                       (''queryType'', opt_str (et_findtext whois_elem [Child ''queryType''])),
                       (''registry'', opt_str (et_findtext whois_elem [Child ''registry''])),
                       (''countryCode'', opt_str (et_findtext whois_elem [Child ''countryCode'']))];
                    result = flatten_children ''korean_ISP_''
                      (et_findall whois_elem
                         [Self, Child ''korean'', Child ''ISP'', Child ''netInfo'', Star]) result;
                    result = flatten_children ''korean_ISP_contact_''
                      (et_findall whois_elem
                         [Self, Child ''korean'', Child ''ISP'', Child ''techContact'', Star]) result;
                    result = flatten_children ''korean_user_''
                      (et_findall whois_elem
                         [Self, Child ''korean'', Child ''user'', Child ''netInfo'', Star]) result;
                    result = flatten_children ''korean_user_contact_''
                      (et_findall whois_elem
                         [Self, Child ''korean'', Child ''user'', Child ''techContact'', Star]) result;
                    result = flatten_children ''english_ISP_''
                      (et_findall whois_elem
                         [Self, Child ''english'', Child ''ISP'', Child ''netInfo'', Star]) result;
                    result = flatten_children ''english_ISP_contact_''
                      (et_findall whois_elem
                         [Self, Child ''english'', Child ''ISP'', Child ''techContact'', Star]) result;
                    result = flatten_children ''english_user_''
                      (et_findall whois_elem
                         [Self, Child ''english'', Child ''user'', Child ''netInfo'', Star]) result;
                    result = flatten_children ''english_user_contact_''
                      (et_findall whois_elem
                         [Self, Child ''english'', Child ''user'', Child ''techContact'', Star]) result
                in result)))"

text \<open>
  The tags \<open>parse_domain_whois_xml\<close> reads with \<open>get_xml_text\<close>, in the order of its
  dict literal: the scalar fields of a domain record.
\<close>

definition domain_scalar_fields :: "string list" where
  "domain_scalar_fields =
     [''name'', ''regName'', ''addr'', ''post'', ''adminName'', ''adminEmail'', ''adminPhone'',
      ''lastUpdatedDate'', ''regDate'', ''endDate'', ''infoYN'', ''agency'', ''agency_url'',
      ''e_regName'', ''e_addr'', ''e_adminName'', ''e_agency'', ''dnssec'']"

section \<open>The single-item fetcher\<close>

text \<open>
  What the server reads from outside itself is collected in one record: the value of
  \<open>WHOIS_SERVICE_KEY\<close> in the process environment (\<open>None\<close> when unset), whether
  \<open>ipaddress.ip_address\<close> accepts a string, the XML library, the HTTP client and the clock.
  \<open>client_get\<close> answers a GET with a response or with the exception it raises; it is given
  the requests made so far, so an upstream may answer the same request differently over
  time. \<open>async_client\<close> is the exception, if any, raised by the \<open>async with\<close> block of
  \<open>lookup_whois\<close> outside \<open>query_whois_api\<close>. Every function that may call the network
  takes the log of the requests made so far and returns it extended.
\<close>

record response =
  status_code :: int
  resp_text :: string

type_synonym request = "string \<times> (string \<times> string) list"

record environment =
  environ_key :: "string option"
  ip_address :: "string \<Rightarrow> bool"
  xml_fromstring :: xml_parser
  async_client :: "py_exception option"
  client_get :: "request list \<Rightarrow> string \<Rightarrow> (string \<times> string) list \<Rightarrow> py_exception + response"
  now_isoformat :: string

definition SERVICE_KEY :: "environment \<Rightarrow> string" where
  "SERVICE_KEY E = (case environ_key E of None \<Rightarrow> ''your_service_key_here'' | Some v \<Rightarrow> v)"

definition is_ip_address :: "environment \<Rightarrow> string \<Rightarrow> bool" where
  "is_ip_address E v = (if ip_address E v then True else False)"

definition exception_text :: "py_exception \<Rightarrow> string" where
  "exception_text e =
     msg_api_exception @ exc_type e @ '': '' @ exc_str e @ [CHR 0x0A] @ exc_traceback e"

definition query_whois_api ::
  "environment \<Rightarrow> string \<Rightarrow> string \<Rightarrow> bool \<Rightarrow> request list \<Rightarrow> pydict \<times> request list" where
  "query_whois_api E query service_key is_ip log =
     (let params = [(''serviceKey'', service_key), (''query'', query), (''answer'', ''xml'')];
          url = (if is_ip then ''http://apis.data.go.kr/B551505/whois/ip_address''
                 else ''http://apis.data.go.kr/B551505/whois/domain_name'')
      in case client_get E log url params of
           Inl e \<Rightarrow>
             ([(''error'', PStr (exception_text e)), (''query'', PStr query)],
              log @ [(url, params)])
         | Inr resp \<Rightarrow>
             (if status_code resp = 200 then
                (if is_ip then parse_ip_whois_xml (xml_fromstring E) (resp_text resp) query
                 else parse_domain_whois_xml (xml_fromstring E) (resp_text resp) query)
              else [(''error'', PStr (msg_api_failed_http @ str_int (status_code resp))),
                    (''query'', PStr query)],
              log @ [(url, params)]))"

definition lookup_whois ::
  "environment \<Rightarrow> string \<Rightarrow> string option \<Rightarrow> request list \<Rightarrow> pydict \<times> request list" where
  "lookup_whois E query service_key log =
     (let api_key = (case service_key of
                       None \<Rightarrow> SERVICE_KEY E
                     | Some k \<Rightarrow> if k = [] then SERVICE_KEY E else k)
      in if api_key = [] \<or> api_key = ''your_service_key_here'' then
           ([(''query'', PStr query), (''status'', PStr ''error''),
             (''error'', PStr msg_key_required)], log)
         else
           (case async_client E of
              Some e \<Rightarrow>
                ([(''query'', PStr query), (''status'', PStr ''error''),
                  (''error'', PStr (exception_text e)),
                  (''query_time'', PStr (now_isoformat E))], log)
            | None \<Rightarrow>
                (let is_ip = is_ip_address E query;
                     answer = query_whois_api E query api_key is_ip log;
                     whois_data = fst answer
                 in ([(''query'', PStr query),
                      (''status'', PStr (if \<not> dict_has ''error'' whois_data then ''success''
                                         else ''error'')),
                      (''data'', PDict whois_data),
                      (''query_time'', PStr (now_isoformat E))], snd answer))))"

section \<open>The result exporter\<close>

text \<open>
  \<open>csv.DictWriter(csvfile, fieldnames=headers)\<close> of the standard library, with its defaults
  \<open>restval=''\<close> and \<open>extrasaction='raise'\<close>: \<open>writerow\<close> raises \<open>ValueError\<close> when the row has
  a key that is not a field name, and otherwise writes, for each field name in turn, the
  row's value or the empty string. The file is modelled before it is turned into text: its
  header and, for each row written, the list of its cells.
\<close>

definition py_repr :: "string \<Rightarrow> string" where
  "py_repr s = [CHR 0x27] @ s @ [CHR 0x27]"

fun join :: "string \<Rightarrow> string list \<Rightarrow> string" where
  "join sep [] = []"
| "join sep [x] = x"
| "join sep (x # y # ys) = x @ sep @ join sep (y # ys)"

definition dict_to_list :: "string list \<Rightarrow> pydict \<Rightarrow> py_exception + pyval list" where
  "dict_to_list fieldnames rowdict =
     (let wrong_fields = filter (\<lambda>k. k \<notin> set fieldnames) (dict_keys rowdict)
      in if wrong_fields \<noteq> [] then
           Inl (PyException ''ValueError''
                  (''dict contains fields not in fieldnames: '' @ join '', '' (map py_repr wrong_fields))
                  [])
         else Inr (map (\<lambda>key. case dict_get rowdict key of None \<Rightarrow> PStr [] | Some v \<Rightarrow> v)
                     fieldnames))"

datatype csv_file = CsvFile (header: "string list") (rows: "pyval list list")

definition type_name :: "pyval \<Rightarrow> string" where
  "type_name v =
     (case v of PNone \<Rightarrow> ''NoneType'' | PStr _ \<Rightarrow> ''str'' | PInt _ \<Rightarrow> ''int''
      | PList _ \<Rightarrow> ''list'' | PDict _ \<Rightarrow> ''dict'')"

text \<open>
  The first loop of \<open>save_results_to_csv\<close>: the keys of the \<open>data\<close> of every success
  result, collected in the order met (the source collects them in a set; duplicates are
  dropped when the list is sorted). \<open>result["data"].keys()\<close> raises \<open>AttributeError\<close> when
  \<open>data\<close> is not a dict.
\<close>

fun collect_headers :: "pydict list \<Rightarrow> string list \<Rightarrow> py_exception + string list" where
  "collect_headers [] headers = Inr headers"
| "collect_headers (result # rest) headers =
     (if py_get result ''status'' = PStr ''success'' \<and> dict_has ''data'' result then
        (case py_get result ''data'' of
           PDict data \<Rightarrow> collect_headers rest (headers @ dict_keys data)
         | v \<Rightarrow> Inl (PyException ''AttributeError''
                      (py_repr (type_name v) @ '' object has no attribute '' @ py_repr ''keys'')
                      []))
      else collect_headers rest headers)"

text \<open>
  The row built for one result. Its \<open>TypeError\<close> branch stands for \<open>row.update\<close> of a
  \<open>data\<close> that is not a dict; the first loop has raised for such a result before any row
  is built.
\<close>

definition csv_row :: "pydict \<Rightarrow> py_exception + pydict" where
  "csv_row result =
     (let row = [(''query'', py_get result ''query''), (''status'', py_get result ''status''),
                 (''query_time'', py_get result ''query_time'')]
      in if py_get result ''status'' = PStr ''success'' \<and> dict_has ''data'' result then
           (case py_get result ''data'' of
              PDict data \<Rightarrow> Inr (dict_update row data)
            | v \<Rightarrow> Inl (PyException ''TypeError''
                         (py_repr (type_name v) @ '' object is not iterable'') []))
         else if py_get result ''status'' = PStr ''error'' then
           Inr (AList.update ''error'' (py_get result ''error'') row)
         else Inr row)"

fun write_rows ::
  "string list \<Rightarrow> pydict list \<Rightarrow> pyval list list \<Rightarrow> py_exception option \<times> pyval list list" where
  "write_rows fieldnames [] written = (None, written)"
| "write_rows fieldnames (result # rest) written =
     (case csv_row result of
        Inl e \<Rightarrow> (Some e, written)
      | Inr row \<Rightarrow>
          (case dict_to_list fieldnames row of
             Inl e \<Rightarrow> (Some e, written)
           | Inr cells \<Rightarrow> write_rows fieldnames rest (written @ [cells])))"

definition csv_failure :: "py_exception \<Rightarrow> pydict" where
  "csv_failure e = [(''status'', PStr ''error''), (''error'', PStr (msg_csv_error @ exc_str e))]"

text \<open>
  \<open>save_results_to_csv\<close>. \<open>open_error\<close> is the exception, if any, that opening a path for
  writing raises. The result is the dict returned and the file as it is left (\<open>None\<close> when
  it was never opened).
\<close>

definition save_results_to_csv ::
  "(string \<Rightarrow> py_exception option) \<Rightarrow> pydict list \<Rightarrow> string \<Rightarrow> pydict \<times> csv_file option" where
  "save_results_to_csv open_error results output_file =
     (if results = [] then ([(''status'', PStr ''error''), (''error'', PStr msg_no_data)], None)
      else
        (case collect_headers results [] of
           Inl e \<Rightarrow> (csv_failure e, None)
         | Inr found \<Rightarrow>
             (let headers = [''query'', ''status'', ''query_time''] @ sort (remdups found)
              in case open_error output_file of
                   Some e \<Rightarrow> (csv_failure e, None)
                 | None \<Rightarrow>
                     (case write_rows headers results [] of
                        (Some e, written) \<Rightarrow> (csv_failure e, Some (CsvFile headers written))
                      | (None, written) \<Rightarrow>
                          ([(''status'', PStr ''success''), (''file_path'', PStr output_file),
                            (''records_saved'', PInt (int (length results))),
                            (''message'', PStr (str_nat (length results) @ msg_saved_count
                                                 @ output_file @ msg_saved_file))],
                           Some (CsvFile headers written))))))"

text \<open>
  For stating what the exporter writes: \<open>data_keys\<close> are the field names a result adds to
  the header (the keys of its \<open>data\<close> when it is a success with a dict as \<open>data\<close>), and a
  result is \<open>exportable\<close> when its status is not \<open>error\<close> and, if it is a success with a
  \<open>data\<close> entry, that entry is a dict.
\<close>

definition data_keys :: "pydict \<Rightarrow> string list" where
  "data_keys result =
     (if py_get result ''status'' = PStr ''success'' \<and> dict_has ''data'' result then
        (case py_get result ''data'' of PDict data \<Rightarrow> dict_keys data | _ \<Rightarrow> [])
      else [])"

definition exportable :: "pydict \<Rightarrow> bool" where
  "exportable result =
     (py_get result ''status'' \<noteq> PStr ''error'' \<and>
      (if py_get result ''status'' = PStr ''success'' \<and> dict_has ''data'' result
       then (case py_get result ''data'' of PDict data \<Rightarrow> True | _ \<Rightarrow> False) else True))"

section \<open>The batch orchestrator\<close>

text \<open>
  \<open>range(0, stop, step)\<close>: a \<open>ValueError\<close> for a zero step, empty for a negative one, and
  \<open>0, step, 2 * step, ...\<close> below \<open>stop\<close> otherwise. \<open>items[i:j]\<close> for indices that are not
  negative is \<open>py_slice\<close>.
\<close>

function range_from :: "nat \<Rightarrow> nat \<Rightarrow> nat \<Rightarrow> nat list" where
  "range_from i stop stp =
     (if stp = 0 \<or> stop \<le> i then [] else i # range_from (i + stp) stop stp)"
  by pat_completeness auto
termination
  by (relation "measure (\<lambda>(i, stop, stp). stop - i)") auto

declare range_from.simps [simp del]

definition py_range :: "nat \<Rightarrow> int \<Rightarrow> py_exception + nat list" where
  "py_range stop stp =
     (if stp = 0 then Inl (PyException ''ValueError'' ''range() arg 3 must not be zero'' [])
      else if stp < 0 then Inr []
      else Inr (range_from 0 stop (nat stp)))"

definition py_slice :: "'a list \<Rightarrow> nat \<Rightarrow> nat \<Rightarrow> 'a list" where
  "py_slice xs i j = take (j - i) (drop i xs)"

text \<open>
  The batches of \<open>bulk_whois_lookup\<close>, in dispatch order: \<open>items[i:i + batch_size]\<close> for
  \<open>i\<close> in \<open>range(0, total_items, batch_size)\<close>.
\<close>

definition batches :: "'a list \<Rightarrow> int \<Rightarrow> py_exception + 'a list list" where
  "batches items batch_size =
     (case py_range (length items) batch_size of
        Inl e \<Rightarrow> Inl e
      | Inr starts \<Rightarrow> Inr (map (\<lambda>i. py_slice items i (i + nat batch_size)) starts))"

text \<open>
  \<open>process_batch\<close>: one \<open>lookup_whois(item)\<close> per item, gathered with
  \<open>return_exceptions=True\<close>, so a result is a dict or an exception, in the order of the
  items. The lookups of a batch are logged in the order of their tasks.
\<close>

fun process_batch ::
  "environment \<Rightarrow> string list \<Rightarrow> request list \<Rightarrow> (py_exception + pydict) list \<times> request list" where
  "process_batch E [] log = ([], log)"
| "process_batch E (item # batch) log =
     (let first = lookup_whois E item None log;
          others = process_batch E batch (snd first)
      in (Inr (fst first) # fst others, snd others))"

text \<open>
  The state of the loop of \<open>bulk_whois_lookup\<close>: its variables \<open>processed\<close>, \<open>results\<close> and
  \<open>errors\<close>, the progress lines printed (as \<open>processed\<close> and \<open>total_items\<close>) and the request
  log. The pause \<open>asyncio.sleep(delay)\<close> between batches changes none of them.
\<close>

record loop_state =
  processed :: nat
  results :: "pydict list"
  errors :: "pyval list"
  printed :: "(nat \<times> nat) list"
  requests :: "request list"

fun count_result :: "py_exception + pydict \<Rightarrow> loop_state \<Rightarrow> loop_state" where
  "count_result (Inl e) st = st\<lparr>errors := errors st @ [PStr (exc_str e)]\<rparr>"
| "count_result (Inr result) st =
     (if py_get result ''status'' = PStr ''success'' then st\<lparr>results := results st @ [result]\<rparr>
      else st\<lparr>errors := errors st @
             [case dict_get result ''query'' of None \<Rightarrow> PStr ''unknown'' | Some q \<Rightarrow> q]\<rparr>)"

definition run_batch :: "environment \<Rightarrow> nat \<Rightarrow> int \<Rightarrow> string list \<Rightarrow> loop_state \<Rightarrow> loop_state" where
  "run_batch E n batch_size batch st =
     (let answer = process_batch E batch (requests st);
          st = fold count_result (fst answer) (st\<lparr>requests := snd answer\<rparr>);
          st = st\<lparr>processed := processed st + length batch\<rparr>
      in if int (processed st) mod (batch_size * 10) = 0
         then st\<lparr>printed := printed st @ [(processed st, n)]\<rparr> else st)"

text \<open>
  The summary \<open>bulk_whois_lookup\<close> returns. Its \<open>success_rate\<close>, a float computed from
  \<open>successful\<close> and \<open>total_items\<close>, is left out. \<open>Inl\<close> is the error result of the outer
  \<open>except\<close>, with its message.
\<close>

record summary =
  status :: string
  total_items :: nat
  successful :: nat
  failed :: nat
  successes :: "pydict list"

definition bulk_whois_lookup ::
  "environment \<Rightarrow> string list \<Rightarrow> int \<Rightarrow> request list \<Rightarrow> (string + summary) \<times> request list" where
  "bulk_whois_lookup E items batch_size log =
     (case batches items batch_size of
        Inl e \<Rightarrow> (Inl (msg_bulk_error @ exc_str e), log)
      | Inr bs \<Rightarrow>
          (let st = fold (run_batch E (length items) batch_size) bs
                      \<lparr>processed = 0, results = [], errors = [], printed = [], requests = log\<rparr>
           in (Inr \<lparr>status = ''completed'', total_items = length items,
                    successful = length (results st), failed = length (errors st),
                    successes = results st\<rparr>, requests st)))"

text \<open>
  For stating what a run counts: \<open>lookups\<close> is the outcome of each item of a list, looked up
  one after another with the configured key, and \<open>is_success\<close> is the test
  \<open>result.get("status") == "success"\<close> of the counting loop.
\<close>

fun lookups :: "environment \<Rightarrow> string list \<Rightarrow> request list \<Rightarrow> pydict list" where
  "lookups E [] log = []"
| "lookups E (item # rest) log =
     fst (lookup_whois E item None log) # lookups E rest (snd (lookup_whois E item None log))"

definition is_success :: "pydict \<Rightarrow> bool" where
  "is_success result = (py_get result ''status'' = PStr ''success'')"

section \<open>Concrete documents\<close>

text \<open>
  Inputs at which the theorems below are evaluated. \<open>parser_answering r\<close> stands for an
  XML library that answers \<open>r\<close>; the documents are the element trees of
  \<open><response><whois/></response>\<close>, of a domain answer with a \<open>krdomain\<close> node that has a
  name and a registration date but no \<open>lastUpdatedDate\<close>, and of an IP answer with only
  the Korean ISP subtree.
\<close>

definition parser_answering :: "string + element \<Rightarrow> xml_parser" where
  "parser_answering r xml_content = r"

definition doc_empty_whois :: element where
  "doc_empty_whois = Element ''response'' None [Element ''whois'' None []]"

definition doc_domain :: element where
  "doc_domain =
     Element ''response'' None
       [Element ''whois'' None
          [Element ''krdomain'' None
             [Element ''name'' (Some ''example.kr'') [],
              Element ''regDate'' (Some ''2020. 01. 01.'') [],
              Element ''domainStatus'' (Some ''ok'') []]]]"

definition doc_ip_korean_isp :: element where
  "doc_ip_korean_isp =
     Element ''response'' None
       [Element ''whois'' None
          [Element ''query'' (Some ''1.1.1.1'') [],
           Element ''queryType'' (Some ''IPv4'') [],
           Element ''registry'' (Some ''KRNIC'') [],
           Element ''countryCode'' (Some ''KR'') [],
           Element ''korean'' None
             [Element ''ISP'' None
                [Element ''netInfo'' None
                   [Element ''range'' (Some ''1.1.1.0 - 1.1.1.255'') [],
                    Element ''orgName'' None []],
                 Element ''techContact'' None
                   [Element ''email'' (Some ''noc@example.kr'') []]]]]]"

text \<open>
  Concrete surroundings: \<open>env_of key answer parsed\<close> is a process whose environment holds
  \<open>key\<close>, whose upstream gives \<open>answer\<close> to every request and whose XML library returns
  \<open>parsed\<close>; no string is an IP literal there. \<open>writable\<close> opens every path.
\<close>

definition env_of ::
  "string option \<Rightarrow> py_exception + response \<Rightarrow> string + element \<Rightarrow> environment" where
  "env_of key answer parsed =
     \<lparr>environ_key = key, ip_address = (\<lambda>v. False), xml_fromstring = parser_answering parsed,
      async_client = None, client_get = (\<lambda>log url params. answer),
      now_isoformat = ''2024-05-01T12:00:00.000000''\<rparr>"

definition env_no_key :: environment where
  "env_no_key = env_of None (Inr \<lparr>status_code = 200, resp_text = []\<rparr>) (Inr doc_domain)"

definition env_http_500 :: environment where
  "env_http_500 =
     env_of (Some ''TESTKEY'') (Inr \<lparr>status_code = 500, resp_text = []\<rparr>) (Inr doc_domain)"

definition env_domain :: environment where
  "env_domain =
     env_of (Some ''TESTKEY'') (Inr \<lparr>status_code = 200, resp_text = []\<rparr>) (Inr doc_domain)"

definition env_no_krdomain :: environment where
  "env_no_krdomain =
     env_of (Some ''TESTKEY'') (Inr \<lparr>status_code = 200, resp_text = []\<rparr>) (Inr doc_empty_whois)"

definition writable :: "string \<Rightarrow> py_exception option" where
  "writable path = None"

section \<open>Theorems\<close>

subsection \<open>Paths and flattened keys\<close>

lemma et_findall_append: "et_findall e (p @ q) = fold select q (et_findall e p)"
  by (simp add: et_findall_def)

lemma fold_select_Nil: "fold select q [] = []"
  by (induction q) (auto, case_tac a, auto)

lemma keys_flatten_children:
  "set (dict_keys (flatten_children pre cs r)) = set (dict_keys r) \<union> (\<lambda>c. pre @ tag c) ` set cs"
  unfolding flatten_children_def dict_keys_def
  by (induction cs arbitrary: r) (simp_all add: dom_update Un_commute Un_left_commute insert_commute)

lemma dict_get_flatten_children:
  "k \<notin> (\<lambda>c. pre @ tag c) ` set cs \<Longrightarrow> dict_get (flatten_children pre cs r) k = dict_get r k"
  unfolding flatten_children_def dict_get_def
  by (induction cs arbitrary: r) (auto simp: update_conv')

lemma dict_has_flatten_children:
  "dict_has k (flatten_children pre cs r) = (dict_has k r \<or> k \<in> (\<lambda>c. pre @ tag c) ` set cs)"
  by (simp add: dict_has_def keys_flatten_children)

lemma et_findall_absent:
  "et_findall e p = [] \<Longrightarrow> et_findall e (p @ q) = []"
  by (simp add: et_findall_append fold_select_Nil)

lemma parse_ip_whois_xml_keys:
  assumes wf: "fromstring xml_content = Inr root"
    and node: "et_find root [Self, Child ''whois''] = Some whois_elem"
    and no_english: "et_findall whois_elem [Self, Child ''english''] = []"
    and no_user: "et_findall whois_elem [Self, Child ''korean'', Child ''user''] = []"
  shows "set (dict_keys (parse_ip_whois_xml fromstring xml_content query)) =
      {''query'', ''queryType'', ''registry'', ''countryCode''} \<union>
      (\<lambda>c. ''korean_ISP_'' @ tag c) `
        set (et_findall whois_elem [Self, Child ''korean'', Child ''ISP'', Child ''netInfo'', Star]) \<union>
      (\<lambda>c. ''korean_ISP_contact_'' @ tag c) `
        set (et_findall whois_elem [Self, Child ''korean'', Child ''ISP'', Child ''techContact'', Star])"
proof -
  have e1: "et_findall whois_elem [Self, Child ''english'', Child ''ISP'', Child ''netInfo'', Star] = []"
    using et_findall_absent [OF no_english, of "[Child ''ISP'', Child ''netInfo'', Star]"] by simp
  have e2: "et_findall whois_elem [Self, Child ''english'', Child ''ISP'', Child ''techContact'', Star] = []"
    using et_findall_absent [OF no_english, of "[Child ''ISP'', Child ''techContact'', Star]"] by simp
  have e3: "et_findall whois_elem [Self, Child ''english'', Child ''user'', Child ''netInfo'', Star] = []"
    using et_findall_absent [OF no_english, of "[Child ''user'', Child ''netInfo'', Star]"] by simp
  have e4: "et_findall whois_elem [Self, Child ''english'', Child ''user'', Child ''techContact'', Star] = []"
    using et_findall_absent [OF no_english, of "[Child ''user'', Child ''techContact'', Star]"] by simp
  have u1: "et_findall whois_elem [Self, Child ''korean'', Child ''user'', Child ''netInfo'', Star] = []"
    using et_findall_absent [OF no_user, of "[Child ''netInfo'', Star]"] by simp
  have u2: "et_findall whois_elem [Self, Child ''korean'', Child ''user'', Child ''techContact'', Star] = []"
    using et_findall_absent [OF no_user, of "[Child ''techContact'', Star]"] by simp
  have "set (dict_keys (parse_ip_whois_xml fromstring xml_content query)) =
      set (dict_keys [(''query'', opt_str (et_findtext whois_elem [Child ''query''])),
                       (''queryType'', opt_str (et_findtext whois_elem [Child ''queryType''])),
                       (''registry'', opt_str (et_findtext whois_elem [Child ''registry''])),
                       (''countryCode'', opt_str (et_findtext whois_elem [Child ''countryCode'']))]) \<union>
      (\<lambda>c. ''korean_ISP_'' @ tag c) `
        set (et_findall whois_elem [Self, Child ''korean'', Child ''ISP'', Child ''netInfo'', Star]) \<union>
      (\<lambda>c. ''korean_ISP_contact_'' @ tag c) `
        set (et_findall whois_elem [Self, Child ''korean'', Child ''ISP'', Child ''techContact'', Star])"
    unfolding parse_ip_whois_xml_def Let_def wf node sum.case option.case
      keys_flatten_children e1 e2 e3 e4 u1 u2
    by simp
  then show ?thesis by (simp add: dict_keys_def)
qed

lemma flattened_key_shape:
  "k \<in> {''query'', ''queryType'', ''registry'', ''countryCode''} \<union>
        (\<lambda>c. ''korean_ISP_'' @ tag c) ` A \<union> (\<lambda>c. ''korean_ISP_contact_'' @ tag c) ` B \<Longrightarrow>
   (k \<in> {''query'', ''queryType'', ''registry'', ''countryCode''} \<or> prefix ''korean_ISP_'' k) \<and>
   \<not> prefix ''english_'' k \<and> \<not> prefix ''korean_user_'' k \<and> \<not> prefix ''english_user_'' k"
proof -
  assume "k \<in> {''query'', ''queryType'', ''registry'', ''countryCode''} \<union>
        (\<lambda>c. ''korean_ISP_'' @ tag c) ` A \<union> (\<lambda>c. ''korean_ISP_contact_'' @ tag c) ` B"
  then consider "k \<in> {''query'', ''queryType'', ''registry'', ''countryCode''}"
    | t where "k = ''korean_ISP_'' @ t" | t where "k = ''korean_ISP_contact_'' @ t"
    by blast
  then show ?thesis
  proof cases
    case 1
    then show ?thesis by auto
  next
    case 2
    then show ?thesis by simp
  next
    case 3
    then show ?thesis by simp
  qed
qed

subsection \<open>Batches and counters\<close>

lemma concat_slices:
  "0 < b \<Longrightarrow> concat (map (\<lambda>i. py_slice xs i (i + b)) (range_from i (length xs) b)) = drop i xs"
proof (induction i "length xs" b rule: range_from.induct)
  case (1 i stp)
  show ?case
  proof (cases "length xs \<le> i")
    case True
    then show ?thesis by (simp add: range_from.simps)
  next
    case False
    with 1 have "concat (map (\<lambda>i. py_slice xs i (i + stp)) (range_from (i + stp) (length xs) stp))
        = drop (i + stp) xs"
      by simp
    moreover have "take stp (drop i xs) @ drop (i + stp) xs = drop i xs"
      by (metis add.commute append_take_drop_id drop_drop)
    ultimately show ?thesis
      using False 1(2) by (subst range_from.simps) (simp add: py_slice_def)
  qed
qed

lemma range_from_bounds: "i' \<in> set (range_from i stop b) \<Longrightarrow> i' < stop"
  by (induction i stop b rule: range_from.induct)
    (subst (asm) range_from.simps, auto split: if_splits)

lemma batches_positive:
  assumes "1 \<le> batch_size"
  shows "batches items batch_size =
      Inr (map (\<lambda>i. py_slice items i (i + nat batch_size))
             (range_from 0 (length items) (nat batch_size)))"
    and "concat (map (\<lambda>i. py_slice items i (i + nat batch_size))
             (range_from 0 (length items) (nat batch_size))) = items"
proof -
  show "batches items batch_size =
      Inr (map (\<lambda>i. py_slice items i (i + nat batch_size))
             (range_from 0 (length items) (nat batch_size)))"
    using assms by (simp add: batches_def py_range_def)
  have "concat (map (\<lambda>i. py_slice items i (i + nat batch_size))
             (range_from 0 (length items) (nat batch_size))) = drop 0 items"
    using assms by (intro concat_slices) simp
  then show "concat (map (\<lambda>i. py_slice items i (i + nat batch_size))
             (range_from 0 (length items) (nat batch_size))) = items"
    by simp
qed

lemma process_batch_lookups:
  "fst (process_batch E batch log) = map Inr (lookups E batch log)"
  by (induction batch arbitrary: log) (simp_all add: Let_def)

lemma process_batch_append:
  "snd (process_batch E (xs @ ys) log) = snd (process_batch E ys (snd (process_batch E xs log)))"
  by (induction xs arbitrary: log) (simp_all add: Let_def)

lemma lookups_append:
  "lookups E (xs @ ys) log = lookups E xs log @ lookups E ys (snd (process_batch E xs log))"
  by (induction xs arbitrary: log) (simp_all add: Let_def)

lemma length_lookups: "length (lookups E xs log) = length xs"
  by (induction xs arbitrary: log) simp_all

lemma fold_count_result:
  "results (fold count_result (map Inr rs) st) = results st @ filter is_success rs \<and>
   length (errors (fold count_result (map Inr rs) st)) =
     length (errors st) + length (filter (\<lambda>r. \<not> is_success r) rs) \<and>
   requests (fold count_result (map Inr rs) st) = requests st \<and>
   processed (fold count_result (map Inr rs) st) = processed st \<and>
   printed (fold count_result (map Inr rs) st) = printed st"
  by (induction rs arbitrary: st) (simp_all add: is_success_def)

lemma run_batch_effect:
  "results (run_batch E n b batch st) = results st @ filter is_success (lookups E batch (requests st)) \<and>
   length (errors (run_batch E n b batch st)) =
     length (errors st) + length (filter (\<lambda>r. \<not> is_success r) (lookups E batch (requests st))) \<and>
   requests (run_batch E n b batch st) = snd (process_batch E batch (requests st))"
  using fold_count_result [of "lookups E batch (requests st)"
      "st\<lparr>requests := snd (process_batch E batch (requests st))\<rparr>"]
  by (simp add: run_batch_def Let_def process_batch_lookups)

lemma fold_run_batch:
  "results (fold (run_batch E n b) bs st) =
     results st @ filter is_success (lookups E (concat bs) (requests st)) \<and>
   length (errors (fold (run_batch E n b) bs st)) =
     length (errors st) + length (filter (\<lambda>r. \<not> is_success r) (lookups E (concat bs) (requests st))) \<and>
   requests (fold (run_batch E n b) bs st) = snd (process_batch E (concat bs) (requests st))"
proof (induction bs arbitrary: st)
  case Nil
  show ?case by simp
next
  case (Cons batch bs)
  show ?case
    using Cons [of "run_batch E n b batch st"] run_batch_effect [of E n b batch st]
    by (simp add: lookups_append process_batch_append)
qed

lemma filter_partition_length:
  "length (filter P xs) + length (filter (\<lambda>x. \<not> P x) xs) = length xs"
  by (induction xs) simp_all

subsection \<open>Headers and rows\<close>

lemma write_rows_failure:
  assumes "r \<in> set rs"
    and "\<And>row. csv_row r = Inr row \<Longrightarrow> \<exists>e. dict_to_list f row = Inl e"
  shows "fst (write_rows f rs w) \<noteq> None"
  using assms
proof (induction rs arbitrary: w)
  case Nil
  then show ?case by simp
next
  case (Cons a rs)
  show ?case
  proof (cases "csv_row a")
    case (Inl e)
    then show ?thesis by simp
  next
    case (Inr row)
    show ?thesis
    proof (cases "dict_to_list f row")
      case (Inl e)
      with Inr show ?thesis by simp
    next
      case cells: (Inr cells)
      with Inr Cons.prems have "r \<noteq> a" by auto
      with Cons.prems have "r \<in> set rs" by simp
      from Cons.IH [OF this Cons.prems(2)] Inr cells show ?thesis by simp
    qed
  qed
qed

lemma error_row_refused:
  assumes "py_get r ''status'' = PStr ''error''" and "''error'' \<notin> set f"
    and "csv_row r = Inr row"
  shows "\<exists>e. dict_to_list f row = Inl e"
proof -
  from assms(1,3) have "row = AList.update ''error'' (py_get r ''error'')
      [(''query'', py_get r ''query''), (''status'', py_get r ''status''),
       (''query_time'', py_get r ''query_time'')]"
    by (simp add: csv_row_def Let_def)
  then have "''error'' \<in> set (dict_keys row)"
    by (simp add: dict_keys_def)
  with assms(2) have "filter (\<lambda>k. k \<notin> set f) (dict_keys row) \<noteq> []"
    by (auto simp: filter_empty_conv)
  then show ?thesis by (simp add: dict_to_list_def Let_def)
qed

text \<open>
  Whenever a result with status \<open>error\<close> is among those exported and no success record has
  a field named \<open>error\<close>, the export ends in the error result.
\<close>

lemma save_results_to_csv_failure_outcome:
  assumes "r \<in> set rs" and "py_get r ''status'' = PStr ''error''"
    and "collect_headers rs [] = Inr found" and "''error'' \<notin> set found"
  shows "py_get (fst (save_results_to_csv open_error rs output_file)) ''status'' = PStr ''error''"
proof -
  let ?h = "[''query'', ''status'', ''query_time''] @ sort (remdups found)"
  have "''error'' \<notin> set ?h" using assms(4) by simp
  with assms(1,2) have "fst (write_rows ?h rs []) \<noteq> None"
    by (intro write_rows_failure [of r]) (auto intro: error_row_refused)
  then obtain e written where "write_rows ?h rs [] = (Some e, written)"
    by (cases "write_rows ?h rs []") auto
  moreover from assms(1) have "rs \<noteq> []" by auto
  ultimately show ?thesis
    using assms(3)
    by (cases "open_error output_file")
      (simp_all add: save_results_to_csv_def Let_def csv_failure_def py_get_def dict_get_def)
qed

lemma collect_headers_exportable:
  "\<forall>r \<in> set rs. exportable r \<Longrightarrow>
     collect_headers rs acc = Inr (acc @ concat (map data_keys rs))"
proof (induction rs arbitrary: acc)
  case Nil
  show ?case by simp
next
  case (Cons r rs)
  then have IH: "\<And>acc. collect_headers rs acc = Inr (acc @ concat (map data_keys rs))"
    and ex: "exportable r"
    by simp_all
  show ?case
  proof (cases "py_get r ''status'' = PStr ''success'' \<and> dict_has ''data'' r")
    case True
    with ex obtain d where d: "py_get r ''data'' = PDict d"
      by (auto simp: exportable_def split: pyval.splits)
    from True d have "data_keys r = dict_keys d" by (simp add: data_keys_def)
    with True d show ?thesis by (simp add: IH)
  next
    case False
    then have "data_keys r = []" by (auto simp: data_keys_def)
    with False show ?thesis by (auto simp: IH)
  qed
qed

lemma keys_dict_update:
  "set (dict_keys (dict_update d other)) = set (dict_keys d) \<union> set (dict_keys other)"
  unfolding dict_update_def dict_keys_def
  by (induction other arbitrary: d) (simp_all add: dom_update Un_commute Un_left_commute insert_commute)

lemma csv_row_exportable:
  assumes "exportable r"
  shows "\<exists>row. csv_row r = Inr row \<and>
     set (dict_keys row) = {''query'', ''status'', ''query_time''} \<union> set (data_keys r)"
proof (cases "py_get r ''status'' = PStr ''success'' \<and> dict_has ''data'' r")
  case True
  with assms obtain d where d: "py_get r ''data'' = PDict d"
    by (auto simp: exportable_def split: pyval.splits)
  with True have "csv_row r = Inr (dict_update
      [(''query'', py_get r ''query''), (''status'', py_get r ''status''),
       (''query_time'', py_get r ''query_time'')] d)"
    by (simp add: csv_row_def Let_def)
  moreover have "data_keys r = dict_keys d"
    using True d by (simp add: data_keys_def)
  ultimately show ?thesis
    by (simp add: keys_dict_update) (simp add: dict_keys_def)
next
  case False
  moreover from assms have "py_get r ''status'' \<noteq> PStr ''error''"
    by (simp add: exportable_def)
  ultimately have "csv_row r = Inr
      [(''query'', py_get r ''query''), (''status'', py_get r ''status''),
       (''query_time'', py_get r ''query_time'')]"
    by (auto simp: csv_row_def Let_def)
  moreover have "data_keys r = []"
    using False by (auto simp: data_keys_def)
  ultimately show ?thesis by (simp add: dict_keys_def)
qed

lemma dict_to_list_fits:
  "set (dict_keys row) \<subseteq> set f \<Longrightarrow>
     \<exists>cells. dict_to_list f row = Inr cells \<and> length cells = length f"
  by (auto simp: dict_to_list_def Let_def filter_empty_conv)

lemma write_rows_exportable:
  assumes base: "{''query'', ''status'', ''query_time''} \<subseteq> set f"
  shows "(\<forall>r \<in> set rs. exportable r \<and> set (data_keys r) \<subseteq> set f) \<Longrightarrow>
     \<exists>new. write_rows f rs w = (None, w @ new) \<and> length new = length rs \<and>
       (\<forall>cells \<in> set new. length cells = length f)"
proof (induction rs arbitrary: w)
  case Nil
  show ?case by simp
next
  case (Cons r rs)
  then have ex: "exportable r" and sub: "set (data_keys r) \<subseteq> set f"
    and rest: "\<forall>r \<in> set rs. exportable r \<and> set (data_keys r) \<subseteq> set f"
    by simp_all
  from csv_row_exportable [OF ex] obtain row where row: "csv_row r = Inr row"
    and keys: "set (dict_keys row) = {''query'', ''status'', ''query_time''} \<union> set (data_keys r)"
    by (elim exE conjE)
  have "set (dict_keys row) \<subseteq> set f"
    unfolding keys using sub base by (rule_tac Un_least)
  from dict_to_list_fits [OF this] obtain cells
    where cells: "dict_to_list f row = Inr cells" and len: "length cells = length f"
    by (elim exE conjE)
  from Cons.IH [OF rest, of "w @ [cells]"] obtain new
    where w: "write_rows f rs (w @ [cells]) = (None, (w @ [cells]) @ new)"
      and n: "length new = length rs" and l: "\<forall>c \<in> set new. length c = length f"
    by (elim exE conjE)
  have "write_rows f (r # rs) w = (None, w @ (cells # new))"
    using row cells w by simp
  moreover have "length (cells # new) = length (r # rs)" using n by simp
  moreover have "\<forall>c \<in> set (cells # new). length c = length f" using l len by simp
  ultimately show ?case by (intro exI [of _ "cells # new"] conjI)
qed

text \<open>
  A non-empty list of exportable results is written in full: one row per result, each as
  long as the header, which is the three fixed columns followed by the sorted field names.
\<close>

lemma save_results_to_csv_exportable:
  assumes "rs \<noteq> []" and "\<forall>r \<in> set rs. exportable r" and "open_error output_file = None"
  shows "\<exists>written. save_results_to_csv open_error rs output_file =
      ([(''status'', PStr ''success''), (''file_path'', PStr output_file),
        (''records_saved'', PInt (int (length rs))),
        (''message'', PStr (str_nat (length rs) @ msg_saved_count @ output_file @ msg_saved_file))],
       Some (CsvFile ([''query'', ''status'', ''query_time''] @
                        sort (remdups (concat (map data_keys rs)))) written)) \<and>
     length written = length rs \<and>
     (\<forall>cells \<in> set written. length cells =
        length ([''query'', ''status'', ''query_time''] @ sort (remdups (concat (map data_keys rs)))))"
proof -
  define h where "h = [''query'', ''status'', ''query_time''] @ sort (remdups (concat (map data_keys rs)))"
  have found: "collect_headers rs [] = Inr (concat (map data_keys rs))"
    using collect_headers_exportable [OF assms(2), of "[]"] by simp
  have sub: "\<forall>r \<in> set rs. exportable r \<and> set (data_keys r) \<subseteq> set h"
    using assms(2) unfolding h_def by auto
  have base: "{''query'', ''status'', ''query_time''} \<subseteq> set h"
    unfolding h_def by simp
  from write_rows_exportable [OF base sub, of "[]"] obtain new
    where w: "write_rows h rs [] = (None, new)"
    and n: "length new = length rs" and l: "\<forall>cells \<in> set new. length cells = length h"
    by auto
  have w': "write_rows (''query'' # ''status'' # ''query_time'' #
      sort (remdups (concat (map data_keys rs)))) rs [] = (None, new)"
    using w unfolding h_def by simp
  have "save_results_to_csv open_error rs output_file =
      ([(''status'', PStr ''success''), (''file_path'', PStr output_file),
        (''records_saved'', PInt (int (length rs))),
        (''message'', PStr (str_nat (length rs) @ msg_saved_count @ output_file @ msg_saved_file))],
       Some (CsvFile h new))"
    using assms(1,3) found w' by (simp add: save_results_to_csv_def Let_def h_def)
  with n l show ?thesis
    unfolding h_def by (intro exI [of _ new] conjI)
qed

subsection \<open>Outcomes of a lookup\<close>

lemma lookup_whois_after_query:
  assumes "k \<noteq> []" and "k \<noteq> ''your_service_key_here''" and "async_client E = None"
  shows "lookup_whois E query (Some k) log =
    ([(''query'', PStr query),
      (''status'', PStr (if \<not> dict_has ''error'' (fst (query_whois_api E query k (is_ip_address E query) log))
                         then ''success'' else ''error'')),
      (''data'', PDict (fst (query_whois_api E query k (is_ip_address E query) log))),
      (''query_time'', PStr (now_isoformat E))],
     snd (query_whois_api E query k (is_ip_address E query) log))"
  using assms by (simp add: lookup_whois_def Let_def)

lemma parse_domain_error_shape:
  "dict_has ''error'' (parse_domain_whois_xml fs s q) \<Longrightarrow>
     \<exists>m. parse_domain_whois_xml fs s q = [(''error'', PStr m), (''query'', PStr q)]"
  by (auto simp: parse_domain_whois_xml_def dict_has_def dict_keys_def
      split: sum.splits option.splits)

lemma parse_ip_error_shape:
  assumes "dict_has ''error'' (parse_ip_whois_xml fs s q)"
  shows "\<exists>m. parse_ip_whois_xml fs s q = [(''error'', PStr m), (''query'', PStr q)]"
proof (cases "fs s")
  case (Inl e)
  then show ?thesis by (simp add: parse_ip_whois_xml_def)
next
  case (Inr root)
  show ?thesis
  proof (cases "et_find root [Self, Child ''whois'']")
    case None
    with Inr show ?thesis by (simp add: parse_ip_whois_xml_def)
  next
    case (Some whois_elem)
    with Inr have "\<not> dict_has ''error'' (parse_ip_whois_xml fs s q)"
      by (simp add: parse_ip_whois_xml_def Let_def dict_has_flatten_children image_iff)
        (simp add: dict_has_def dict_keys_def)
    with assms show ?thesis by simp
  qed
qed

subsection \<open>The claims\<close>

text \<open>
  C10. The legacy parser \<open>parse_whois_xml\<close> and the IP-aware server's
  \<open>parse_domain_whois_xml\<close> return the same mapping for every XML input string and every
  query string, whatever the XML library answers: the same success record, the same error
  result.
\<close>

theorem parse_whois_xml_eq_parse_domain_whois_xml:
  "parse_whois_xml fromstring xml_content query =
   parse_domain_whois_xml fromstring xml_content query"
  unfolding parse_whois_xml_def parse_domain_whois_xml_def legacy_get_xml_text_def
    get_xml_text_def
  by (rule refl)


text \<open>
  C5. On a well-formed document (the XML library returns a root) whose \<open>./whois/krdomain\<close>
  node is absent, \<open>parse_domain_whois_xml\<close> returns the not-found error result. On input
  that is not well formed it returns the XML-parse error result, which is a different
  result. On well-formed input the result carries an \<open>error\<close> key exactly when the node is
  absent: that is the only fatal condition there.
\<close>

theorem parse_domain_whois_xml_fatal:
  "(fromstring xml_content = Inr root \<and>
      et_find root [Self, Child ''whois'', Child ''krdomain''] = None \<longrightarrow>
      parse_domain_whois_xml fromstring xml_content query =
        [(''error'', PStr msg_krdomain_not_found), (''query'', PStr query)]) \<and>
   (fromstring xml_content = Inl e \<longrightarrow>
      parse_domain_whois_xml fromstring xml_content query =
        [(''error'', PStr (msg_xml_parse_error @ e)), (''query'', PStr query)] \<and>
      parse_domain_whois_xml fromstring xml_content query \<noteq>
        [(''error'', PStr msg_krdomain_not_found), (''query'', PStr query)]) \<and>
   (fromstring xml_content = Inr root \<longrightarrow>
      dict_has ''error'' (parse_domain_whois_xml fromstring xml_content query) =
        (et_find root [Self, Child ''whois'', Child ''krdomain''] = None))"
  by (auto simp: parse_domain_whois_xml_def dict_has_def dict_keys_def
      msg_xml_parse_error_def msg_krdomain_not_found_def split: option.splits)


theorem parse_domain_whois_xml_fatal_witness:
  "parse_domain_whois_xml (parser_answering (Inr doc_empty_whois)) ''<response><whois/></response>''
      ''example.kr'' = [(''error'', PStr msg_krdomain_not_found), (''query'', PStr ''example.kr'')] \<and>
   dict_has ''error'' (parse_domain_whois_xml (parser_answering (Inr doc_empty_whois))
      ''<response><whois/></response>'' ''example.kr'') \<and>
   parse_domain_whois_xml (parser_answering (Inl ''no element found: line 1, column 10''))
      ''<response>'' ''example.kr'' =
     [(''error'', PStr (msg_xml_parse_error @ ''no element found: line 1, column 10'')),
      (''query'', PStr ''example.kr'')] \<and>
   parse_domain_whois_xml (parser_answering (Inl ''no element found: line 1, column 10''))
      ''<response>'' ''example.kr'' \<noteq>
     [(''error'', PStr msg_krdomain_not_found), (''query'', PStr ''example.kr'')]"
proof -
  have absent: "parser_answering (Inr doc_empty_whois) ''<response><whois/></response>'' =
      Inr doc_empty_whois \<and>
      et_find doc_empty_whois [Self, Child ''whois'', Child ''krdomain''] = None"
    by (simp add: parser_answering_def doc_empty_whois_def et_find_def et_findall_def)
  have malformed: "parser_answering (Inl ''no element found: line 1, column 10'') ''<response>'' =
      Inl ''no element found: line 1, column 10''"
    by (simp add: parser_answering_def)
  from absent malformed
    parse_domain_whois_xml_fatal [of "parser_answering (Inr doc_empty_whois)"
      "''<response><whois/></response>''" doc_empty_whois "''example.kr''"]
    parse_domain_whois_xml_fatal [of "parser_answering (Inl ''no element found: line 1, column 10'')"
      "''<response>''" _ "''example.kr''" "''no element found: line 1, column 10''"]
  show ?thesis by blast
qed

text \<open>
  C8. On a well-formed domain document that has the \<open>krdomain\<close> node but lacks one of the
  scalar elements (\<open>lastUpdatedDate\<close>, say), \<open>parse_domain_whois_xml\<close> returns a record with no
  \<open>error\<close> key, in which that field is present with the value \<open>None\<close>; the record still has
  all of its 22 keys, its \<open>query\<close>, and every scalar field holds the text of its own
  element.
\<close>

theorem parse_domain_missing_optional:
  assumes "fromstring xml_content = Inr root"
    and "et_find root [Self, Child ''whois'', Child ''krdomain''] = Some krdomain"
    and "tag_name \<in> set domain_scalar_fields"
    and "et_find krdomain [Child tag_name] = None"
  shows "\<not> dict_has ''error'' (parse_domain_whois_xml fromstring xml_content query) \<and>
    dict_get (parse_domain_whois_xml fromstring xml_content query) tag_name = Some PNone \<and>
    dict_get (parse_domain_whois_xml fromstring xml_content query) ''query'' = Some (PStr query) \<and>
    (\<forall>g \<in> set domain_scalar_fields.
       dict_get (parse_domain_whois_xml fromstring xml_content query) g =
         Some (opt_str (get_xml_text krdomain g))) \<and>
    dict_keys (parse_domain_whois_xml fromstring xml_content query) =
      [''query'', ''name'', ''regName'', ''addr'', ''post'', ''adminName'', ''adminEmail'',
       ''adminPhone'', ''lastUpdatedDate'', ''regDate'', ''endDate'', ''infoYN'', ''domainStatus'',
       ''agency'', ''agency_url'', ''e_regName'', ''e_addr'', ''e_adminName'', ''e_agency'',
       ''dnssec'', ''ns1'', ''ip1'']"
proof -
  let ?r = "parse_domain_whois_xml fromstring xml_content query"
  have keys: "dict_keys ?r =
      [''query'', ''name'', ''regName'', ''addr'', ''post'', ''adminName'', ''adminEmail'',
       ''adminPhone'', ''lastUpdatedDate'', ''regDate'', ''endDate'', ''infoYN'', ''domainStatus'',
       ''agency'', ''agency_url'', ''e_regName'', ''e_addr'', ''e_adminName'', ''e_agency'',
       ''dnssec'', ''ns1'', ''ip1'']"
    using assms(1,2) by (simp add: parse_domain_whois_xml_def dict_keys_def)
  have noerr: "\<not> dict_has ''error'' ?r"
    unfolding dict_has_def keys by simp
  have q: "dict_get ?r ''query'' = Some (PStr query)"
    using assms(1,2) by (simp add: parse_domain_whois_xml_def dict_get_def)
  have all: "\<forall>g \<in> set domain_scalar_fields. dict_get ?r g = Some (opt_str (get_xml_text krdomain g))"
    using assms(1,2) by (simp add: parse_domain_whois_xml_def dict_get_def domain_scalar_fields_def)
  have "get_xml_text krdomain tag_name = None"
    using assms(4) by (simp add: get_xml_text_def)
  with all assms(3) have "dict_get ?r tag_name = Some PNone"
    by (simp add: opt_str_def)
  with keys noerr q all show ?thesis by blast
qed


theorem parse_domain_missing_optional_witness:
  "\<not> dict_has ''error'' (parse_domain_whois_xml (parser_answering (Inr doc_domain)) [] ''example.kr'') \<and>
   dict_get (parse_domain_whois_xml (parser_answering (Inr doc_domain)) [] ''example.kr'')
     ''lastUpdatedDate'' = Some PNone \<and>
   dict_get (parse_domain_whois_xml (parser_answering (Inr doc_domain)) [] ''example.kr'')
     ''query'' = Some (PStr ''example.kr'')"
proof -
  have wf: "parser_answering (Inr doc_domain) [] = Inr doc_domain"
    by (simp add: parser_answering_def)
  have node: "et_find doc_domain [Self, Child ''whois'', Child ''krdomain''] =
      Some (Element ''krdomain'' None
             [Element ''name'' (Some ''example.kr'') [],
              Element ''regDate'' (Some ''2020. 01. 01.'') [],
              Element ''domainStatus'' (Some ''ok'') []])"
    by (simp add: doc_domain_def et_find_def et_findall_def)
  have field: "''lastUpdatedDate'' \<in> set domain_scalar_fields"
    by (simp add: domain_scalar_fields_def)
  have missing: "et_find (Element ''krdomain'' None
             [Element ''name'' (Some ''example.kr'') [],
              Element ''regDate'' (Some ''2020. 01. 01.'') [],
              Element ''domainStatus'' (Some ''ok'') []]) [Child ''lastUpdatedDate''] = None"
    by (simp add: et_find_def et_findall_def)
  from parse_domain_missing_optional [where fromstring = "parser_answering (Inr doc_domain)"
      and xml_content = "[]" and query = "''example.kr''", OF wf node field missing]
  show ?thesis by blast
qed

text \<open>
  C3, as the code has it. A record with no \<open>error\<close> key always has a \<open>query\<close> field. From
  \<open>parse_domain_whois_xml\<close> its value is the query string passed in. From
  \<open>parse_ip_whois_xml\<close> its value is what \<open>findtext\<close> reads at the document's
  \<open>whois/query\<close> element: the text echoed by the registry, \<open>None\<close> when the element is
  absent.
\<close>

theorem record_query_field:
  "(\<not> dict_has ''error'' (parse_domain_whois_xml fromstring xml_content query) \<longrightarrow>
      dict_get (parse_domain_whois_xml fromstring xml_content query) ''query'' = Some (PStr query)) \<and>
   (\<not> dict_has ''error'' (parse_ip_whois_xml fromstring xml_content query) \<longrightarrow>
      (\<exists>root whois_elem. fromstring xml_content = Inr root \<and>
         et_find root [Self, Child ''whois''] = Some whois_elem \<and>
         dict_get (parse_ip_whois_xml fromstring xml_content query) ''query'' =
           Some (opt_str (et_findtext whois_elem [Child ''query'']))))"
proof (intro conjI impI)
  assume "\<not> dict_has ''error'' (parse_domain_whois_xml fromstring xml_content query)"
  then show "dict_get (parse_domain_whois_xml fromstring xml_content query) ''query'' = Some (PStr query)"
    by (auto simp: parse_domain_whois_xml_def dict_has_def dict_keys_def dict_get_def
        split: sum.splits option.splits)
next
  assume ne: "\<not> dict_has ''error'' (parse_ip_whois_xml fromstring xml_content query)"
  then obtain root where r: "fromstring xml_content = Inr root"
    by (cases "fromstring xml_content")
      (auto simp: parse_ip_whois_xml_def dict_has_def dict_keys_def)
  with ne obtain whois_elem where w: "et_find root [Self, Child ''whois''] = Some whois_elem"
    by (cases "et_find root [Self, Child ''whois'']")
      (auto simp: parse_ip_whois_xml_def dict_has_def dict_keys_def)
  have "dict_get (parse_ip_whois_xml fromstring xml_content query) ''query'' =
      Some (opt_str (et_findtext whois_elem [Child ''query'']))"
    using r w
    by (simp add: parse_ip_whois_xml_def Let_def dict_get_flatten_children image_iff)
      (simp add: dict_get_def)
  with r w show "\<exists>root whois_elem. fromstring xml_content = Inr root \<and>
         et_find root [Self, Child ''whois''] = Some whois_elem \<and>
         dict_get (parse_ip_whois_xml fromstring xml_content query) ''query'' =
           Some (opt_str (et_findtext whois_elem [Child ''query'']))"
    by blast
qed

text \<open>
  C3 as stated fails for the IP normalizer: the document echoes \<open>1.1.1.1\<close> and the lookup
  was for \<open>8.8.8.8\<close>; the record has no \<open>error\<close> key and its \<open>query\<close> field is the echo.
\<close>

theorem ip_query_not_original:
  "\<not> dict_has ''error'' (parse_ip_whois_xml (parser_answering (Inr doc_ip_korean_isp)) [] ''8.8.8.8'') \<and>
   dict_get (parse_ip_whois_xml (parser_answering (Inr doc_ip_korean_isp)) [] ''8.8.8.8'') ''query''
     = Some (PStr ''1.1.1.1'') \<and>
   dict_get (parse_ip_whois_xml (parser_answering (Inr doc_ip_korean_isp)) [] ''8.8.8.8'') ''query''
     \<noteq> Some (PStr ''8.8.8.8'')"
  by (simp add: parse_ip_whois_xml_def parser_answering_def doc_ip_korean_isp_def et_find_def
      et_findall_def et_findtext_def flatten_children_def opt_str_def dict_has_def dict_keys_def
      dict_get_def)


text \<open>
  C3, at concrete inputs: a domain answer looked up as \<open>example.kr\<close> carries that query, and
  the IP answer above carries the echo \<open>1.1.1.1\<close> of its document.
\<close>

theorem record_query_field_witness:
  "dict_get (parse_domain_whois_xml (parser_answering (Inr doc_domain)) [] ''example.kr'') ''query'' =
     Some (PStr ''example.kr'') \<and>
   (\<exists>root whois_elem. parser_answering (Inr doc_ip_korean_isp) [] = Inr root \<and>
      et_find root [Self, Child ''whois''] = Some whois_elem \<and>
      dict_get (parse_ip_whois_xml (parser_answering (Inr doc_ip_korean_isp)) [] ''1.1.1.1'') ''query'' =
        Some (opt_str (et_findtext whois_elem [Child ''query''])))"
proof -
  have d: "\<not> dict_has ''error'' (parse_domain_whois_xml (parser_answering (Inr doc_domain)) [] ''example.kr'')"
    by (simp add: parse_domain_whois_xml_def parser_answering_def doc_domain_def et_find_def
        et_findall_def dict_has_def dict_keys_def)
  have i: "\<not> dict_has ''error'' (parse_ip_whois_xml (parser_answering (Inr doc_ip_korean_isp)) [] ''1.1.1.1'')"
    by (simp add: parse_ip_whois_xml_def parser_answering_def doc_ip_korean_isp_def et_find_def
        et_findall_def dict_has_flatten_children)
      (simp add: dict_has_def dict_keys_def)
  from d i
    record_query_field [of "parser_answering (Inr doc_domain)" "[]" "''example.kr''"]
    record_query_field [of "parser_answering (Inr doc_ip_korean_isp)" "[]" "''1.1.1.1''"]
  show ?thesis by blast
qed

text \<open>
  C6. On a well-formed IP document that has its \<open>whois\<close> node, no \<open>english\<close> subtree and no
  \<open>korean/user\<close> subtree, the key set of the record \<open>parse_ip_whois_xml\<close> returns is exactly
  the four top-level keys, \<open>korean_ISP_\<close> followed by the tag of each child of
  \<open>korean/ISP/netInfo\<close>, and \<open>korean_ISP_contact_\<close> followed by the tag of each child of
  \<open>korean/ISP/techContact\<close>. So every key is one of the four or starts with \<open>korean_ISP_\<close>,
  and none starts with \<open>english_\<close>, \<open>korean_user_\<close> or \<open>english_user_\<close>.
\<close>

theorem parse_ip_korean_isp_keys:
  assumes wf: "fromstring xml_content = Inr root"
    and node: "et_find root [Self, Child ''whois''] = Some whois_elem"
    and no_english: "et_findall whois_elem [Self, Child ''english''] = []"
    and no_user: "et_findall whois_elem [Self, Child ''korean'', Child ''user''] = []"
  shows "set (dict_keys (parse_ip_whois_xml fromstring xml_content query)) =
      {''query'', ''queryType'', ''registry'', ''countryCode''} \<union>
      (\<lambda>c. ''korean_ISP_'' @ tag c) `
        set (et_findall whois_elem [Self, Child ''korean'', Child ''ISP'', Child ''netInfo'', Star]) \<union>
      (\<lambda>c. ''korean_ISP_contact_'' @ tag c) `
        set (et_findall whois_elem [Self, Child ''korean'', Child ''ISP'', Child ''techContact'', Star]) \<and>
    (\<forall>k \<in> set (dict_keys (parse_ip_whois_xml fromstring xml_content query)).
       (k \<in> {''query'', ''queryType'', ''registry'', ''countryCode''} \<or> prefix ''korean_ISP_'' k) \<and>
       \<not> prefix ''english_'' k \<and> \<not> prefix ''korean_user_'' k \<and> \<not> prefix ''english_user_'' k)"
proof (rule conjI)
  show keys: "set (dict_keys (parse_ip_whois_xml fromstring xml_content query)) =
      {''query'', ''queryType'', ''registry'', ''countryCode''} \<union>
      (\<lambda>c. ''korean_ISP_'' @ tag c) `
        set (et_findall whois_elem [Self, Child ''korean'', Child ''ISP'', Child ''netInfo'', Star]) \<union>
      (\<lambda>c. ''korean_ISP_contact_'' @ tag c) `
        set (et_findall whois_elem [Self, Child ''korean'', Child ''ISP'', Child ''techContact'', Star])"
    by (rule parse_ip_whois_xml_keys [where fromstring = fromstring and xml_content = xml_content,
        OF wf node no_english no_user])
  show "\<forall>k \<in> set (dict_keys (parse_ip_whois_xml fromstring xml_content query)).
       (k \<in> {''query'', ''queryType'', ''registry'', ''countryCode''} \<or> prefix ''korean_ISP_'' k) \<and>
       \<not> prefix ''english_'' k \<and> \<not> prefix ''korean_user_'' k \<and> \<not> prefix ''english_user_'' k"
    unfolding keys by (rule ballI) (rule flattened_key_shape)
qed

text \<open>C6 at the IP document above: seven keys.\<close>

theorem parse_ip_korean_isp_keys_witness:
  "set (dict_keys (parse_ip_whois_xml (parser_answering (Inr doc_ip_korean_isp)) [] ''1.1.1.1'')) =
     {''query'', ''queryType'', ''registry'', ''countryCode''} \<union>
     {''korean_ISP_range'', ''korean_ISP_orgName''} \<union> {''korean_ISP_contact_email''}"
proof -
  let ?w = "Element ''whois'' None
          [Element ''query'' (Some ''1.1.1.1'') [],
           Element ''queryType'' (Some ''IPv4'') [],
           Element ''registry'' (Some ''KRNIC'') [],
           Element ''countryCode'' (Some ''KR'') [],
           Element ''korean'' None
             [Element ''ISP'' None
                [Element ''netInfo'' None
                   [Element ''range'' (Some ''1.1.1.0 - 1.1.1.255'') [],
                    Element ''orgName'' None []],
                 Element ''techContact'' None
                   [Element ''email'' (Some ''noc@example.kr'') []]]]]"
  have wf: "parser_answering (Inr doc_ip_korean_isp) [] = Inr doc_ip_korean_isp"
    by (simp add: parser_answering_def)
  have node: "et_find doc_ip_korean_isp [Self, Child ''whois''] = Some ?w"
    by (simp add: doc_ip_korean_isp_def et_find_def et_findall_def)
  have no_english: "et_findall ?w [Self, Child ''english''] = []"
    by (simp add: et_findall_def)
  have no_user: "et_findall ?w [Self, Child ''korean'', Child ''user''] = []"
    by (simp add: et_findall_def)
  have net: "(\<lambda>c. ''korean_ISP_'' @ tag c) `
        set (et_findall ?w [Self, Child ''korean'', Child ''ISP'', Child ''netInfo'', Star]) =
      {''korean_ISP_range'', ''korean_ISP_orgName''}"
    by (simp add: et_findall_def)
  have tech: "(\<lambda>c. ''korean_ISP_contact_'' @ tag c) `
        set (et_findall ?w [Self, Child ''korean'', Child ''ISP'', Child ''techContact'', Star]) =
      {''korean_ISP_contact_email''}"
    by (simp add: et_findall_def)
  from parse_ip_korean_isp_keys [where fromstring = "parser_answering (Inr doc_ip_korean_isp)"
        and xml_content = "[]" and query = "''1.1.1.1''", OF wf node no_english no_user]
  show ?thesis unfolding net tech by (rule conjunct1)
qed

text \<open>
  C7. For every item list and every batch size of at least 1, the slices
  \<open>items[i:i + batch_size]\<close> taken for \<open>i = 0, batch_size, 2 * batch_size, ...\<close> are each
  non-empty and at most \<open>batch_size\<close> long, and their concatenation in dispatch order is the
  item list itself: the same items in the same order, hence the same multiset.
\<close>

theorem batches_partition:
  "1 \<le> batch_size \<Longrightarrow>
     (\<exists>bs. batches items batch_size = Inr bs \<and>
        (\<forall>b \<in> set bs. 1 \<le> length b \<and> int (length b) \<le> batch_size) \<and>
        concat bs = items)"
proof -
  assume pos: "1 \<le> batch_size"
  let ?bs = "map (\<lambda>i. py_slice items i (i + nat batch_size))
    (range_from 0 (length items) (nat batch_size))"
  have "\<forall>b \<in> set ?bs. 1 \<le> length b \<and> int (length b) \<le> batch_size"
    using pos range_from_bounds by (fastforce simp: py_slice_def)
  with batches_positive [OF pos, of items] show ?thesis by blast
qed

text \<open>C7 at five items in batches of two: \<open>[1, 2]\<close>, \<open>[3, 4]\<close>, \<open>[5]\<close>.\<close>

theorem batches_partition_witness:
  "batches [1, 2, 3, 4, 5 :: nat] 2 = Inr [[1, 2], [3, 4], [5]] \<and>
   (\<exists>bs. batches [1, 2, 3, 4, 5 :: nat] 2 = Inr bs \<and> concat bs = [1, 2, 3, 4, 5])"
proof -
  have "(1::int) \<le> 2" by simp
  from batches_partition [OF this, of "[1, 2, 3, 4, 5 :: nat]"]
  have "\<exists>bs. batches [1, 2, 3, 4, 5 :: nat] 2 = Inr bs \<and> concat bs = [1, 2, 3, 4, 5]"
    by blast
  moreover have "batches [1, 2, 3, 4, 5 :: nat] 2 = Inr [[1, 2], [3, 4], [5]]"
    by (simp add: batches_def py_range_def range_from.simps py_slice_def)
  ultimately show ?thesis by blast
qed

text \<open>
  C4, as the code has it. For every item list and every batch size of at least 1,
  \<open>bulk_whois_lookup\<close> completes with a summary in which \<open>total_items\<close> is the length of the
  list and \<open>successful + failed = total_items\<close>: the successes returned are exactly the
  per-item outcomes whose status is \<open>success\<close>, in order, and \<open>failed\<close> counts exactly the
  other outcomes.
\<close>

theorem bulk_counters:
  assumes "1 \<le> batch_size"
  shows "\<exists>s. fst (bulk_whois_lookup E items batch_size log) = Inr s \<and>
      total_items s = length items \<and>
      successful s + failed s = total_items s \<and>
      successes s = filter is_success (lookups E items log) \<and>
      successful s = length (filter is_success (lookups E items log)) \<and>
      failed s = length (filter (\<lambda>r. \<not> is_success r) (lookups E items log))"
proof -
  define bs where "bs = map (\<lambda>i. py_slice items i (i + nat batch_size))
    (range_from 0 (length items) (nat batch_size))"
  have bs: "batches items batch_size = Inr bs" and cat: "concat bs = items"
    unfolding bs_def using batches_positive [OF assms, of items] by simp_all
  let ?st = "fold (run_batch E (length items) batch_size) bs
      \<lparr>processed = 0, results = [], errors = [], printed = [], requests = log\<rparr>"
  have r: "results ?st = filter is_success (lookups E items log)"
    and e: "length (errors ?st) = length (filter (\<lambda>r. \<not> is_success r) (lookups E items log))"
    using fold_run_batch [of E "length items" batch_size bs
        "\<lparr>processed = 0, results = [], errors = [], printed = [], requests = log\<rparr>"] cat
    by simp_all
  have "length (results ?st) + length (errors ?st) = length items"
    unfolding r e using filter_partition_length [of is_success "lookups E items log"]
    by (simp add: length_lookups)
  then show ?thesis
    using bs r e by (simp add: bulk_whois_lookup_def Let_def)
qed

text \<open>C4 at three items in batches of two, with an upstream that answers HTTP 500.\<close>

theorem bulk_counters_witness:
  "\<exists>s. fst (bulk_whois_lookup env_http_500 [''a.kr'', ''b.kr'', ''c.kr''] 2 []) = Inr s \<and>
     total_items s = 3 \<and> successful s + failed s = 3"
proof -
  have "(1::int) \<le> 2" by simp
  from bulk_counters [OF this, of env_http_500 "[''a.kr'', ''b.kr'', ''c.kr'']" "[]"]
  show ?thesis by auto
qed

text \<open>
  C4 as stated fails for a negative batch size: \<open>range(0, total_items, -1)\<close> is empty, so
  the run of one item completes normally with no lookup made and both counters at zero.
\<close>

theorem bulk_negative_batch_size:
  "bulk_whois_lookup env_domain [''example.kr''] (- 1) [] =
     (Inr \<lparr>status = ''completed'', total_items = 1, successful = 0, failed = 0, successes = []\<rparr>,
      [])"
  by (simp add: bulk_whois_lookup_def batches_def py_range_def)

text \<open>
  C9. For every query, when no service key is passed to the call and the configured key
  is absent (the environment variable is unset, so \<open>SERVICE_KEY\<close> is the placeholder), is
  the placeholder \<open>your_service_key_here\<close> itself, or is empty, \<open>lookup_whois\<close> returns the
  failure outcome with the key-required message and leaves the request log as it was: no
  network call is made.
\<close>

theorem lookup_whois_credential_missing:
  assumes "environ_key E = None \<or> environ_key E = Some ''your_service_key_here'' \<or>
           environ_key E = Some []"
  shows "lookup_whois E query None log =
    ([(''query'', PStr query), (''status'', PStr ''error''), (''error'', PStr msg_key_required)],
     log)"
  using assms by (auto simp: lookup_whois_def SERVICE_KEY_def)

text \<open>C9 in a process whose environment has no key.\<close>

theorem lookup_whois_credential_missing_witness:
  "lookup_whois env_no_key ''example.kr'' None [] =
    ([(''query'', PStr ''example.kr''), (''status'', PStr ''error''),
      (''error'', PStr msg_key_required)], [])"
proof -
  have "environ_key env_no_key = None"
    by (simp add: env_no_key_def env_of_def)
  then have "environ_key env_no_key = None \<or>
      environ_key env_no_key = Some ''your_service_key_here'' \<or> environ_key env_no_key = Some []"
    by simp
  from lookup_whois_credential_missing [OF this] show ?thesis .
qed


text \<open>
  C2, as the code has it. With a usable key (passed to the call or configured), when the
  upstream answers with a status other than 200, or answers 200 and the parser of the
  query's kind reports an error, \<open>lookup_whois\<close> returns an outcome and raises nothing:
  the outcome has the query, the status \<open>error\<close>, the time of completion, and as its \<open>data\<close>
  the error result \<open>{error, query}\<close> whose \<open>error\<close> is the HTTP-status message or the parser's
  message. The outcome itself has no \<open>error\<close> key.
\<close>

theorem lookup_whois_failure_outcome:
  assumes key: "service_key = Some k \<or> (service_key = None \<and> environ_key E = Some k)"
    and valid: "k \<noteq> []" "k \<noteq> ''your_service_key_here''"
    and client: "async_client E = None"
    and answer: "client_get E log
           (if is_ip_address E query then ''http://apis.data.go.kr/B551505/whois/ip_address''
            else ''http://apis.data.go.kr/B551505/whois/domain_name'')
           [(''serviceKey'', k), (''query'', query), (''answer'', ''xml'')] = Inr resp"
    and failure: "status_code resp \<noteq> 200 \<or>
           dict_has ''error''
             (if is_ip_address E query
              then parse_ip_whois_xml (xml_fromstring E) (resp_text resp) query
              else parse_domain_whois_xml (xml_fromstring E) (resp_text resp) query)"
  shows "\<exists>msg. fst (lookup_whois E query service_key log) =
        [(''query'', PStr query), (''status'', PStr ''error''),
         (''data'', PDict [(''error'', PStr msg), (''query'', PStr query)]),
         (''query_time'', PStr (now_isoformat E))] \<and>
      (if status_code resp = 200
       then PStr msg = py_get (if is_ip_address E query
              then parse_ip_whois_xml (xml_fromstring E) (resp_text resp) query
              else parse_domain_whois_xml (xml_fromstring E) (resp_text resp) query) ''error''
       else msg = msg_api_failed_http @ str_int (status_code resp)) \<and>
      dict_get (fst (lookup_whois E query service_key log)) ''error'' = None"
proof -
  let ?parsed = "if is_ip_address E query
              then parse_ip_whois_xml (xml_fromstring E) (resp_text resp) query
              else parse_domain_whois_xml (xml_fromstring E) (resp_text resp) query"
  let ?data = "fst (query_whois_api E query k (is_ip_address E query) log)"
  have whole: "lookup_whois E query service_key log = lookup_whois E query (Some k) log"
    using key valid by (auto simp: lookup_whois_def SERVICE_KEY_def)
  have data: "?data = (if status_code resp = 200 then ?parsed
      else [(''error'', PStr (msg_api_failed_http @ str_int (status_code resp))),
            (''query'', PStr query)])"
    using answer by (simp add: query_whois_api_def Let_def)
  have "\<exists>msg. ?data = [(''error'', PStr msg), (''query'', PStr query)] \<and>
      (if status_code resp = 200 then PStr msg = py_get ?parsed ''error''
       else msg = msg_api_failed_http @ str_int (status_code resp))"
  proof (cases "status_code resp = 200")
    case True
    with failure have "dict_has ''error'' ?parsed" by simp
    then have "\<exists>m. ?parsed = [(''error'', PStr m), (''query'', PStr query)]"
      by (cases "is_ip_address E query")
        (simp_all add: parse_domain_error_shape parse_ip_error_shape)
    then obtain m where "?parsed = [(''error'', PStr m), (''query'', PStr query)]" ..
    with True data show ?thesis
      by (intro exI [of _ m]) (simp add: py_get_def dict_get_def)
  next
    case False
    with data show ?thesis by simp
  qed
  then obtain msg where m: "?data = [(''error'', PStr msg), (''query'', PStr query)]"
    and which: "if status_code resp = 200 then PStr msg = py_get ?parsed ''error''
       else msg = msg_api_failed_http @ str_int (status_code resp)"
    by blast
  have out: "fst (lookup_whois E query service_key log) =
        [(''query'', PStr query), (''status'', PStr ''error''),
         (''data'', PDict [(''error'', PStr msg), (''query'', PStr query)]),
         (''query_time'', PStr (now_isoformat E))]"
    unfolding whole lookup_whois_after_query [OF valid client] m
    by (simp add: dict_has_def dict_keys_def)
  moreover have "dict_get (fst (lookup_whois E query service_key log)) ''error'' = None"
    unfolding out by (simp add: dict_get_def)
  ultimately show ?thesis using which by (intro exI [of _ msg] conjI)
qed

text \<open>C2 with the configured key and an upstream that answers HTTP 500.\<close>

theorem lookup_whois_failure_outcome_witness:
  "fst (lookup_whois env_http_500 ''example.kr'' None []) =
     [(''query'', PStr ''example.kr''), (''status'', PStr ''error''),
      (''data'', PDict [(''error'', PStr (msg_api_failed_http @ str_int 500)),
                        (''query'', PStr ''example.kr'')]),
      (''query_time'', PStr (now_isoformat env_http_500))]"
proof -
  have key: "None = Some ''TESTKEY'' \<or>
      ((None :: string option) = None \<and> environ_key env_http_500 = Some ''TESTKEY'')"
    by (simp add: env_http_500_def env_of_def)
  have valid: "''TESTKEY'' \<noteq> []" "''TESTKEY'' \<noteq> ''your_service_key_here''"
    by simp_all
  have client: "async_client env_http_500 = None"
    by (simp add: env_http_500_def env_of_def)
  have answer: "client_get env_http_500 []
      (if is_ip_address env_http_500 ''example.kr''
       then ''http://apis.data.go.kr/B551505/whois/ip_address''
       else ''http://apis.data.go.kr/B551505/whois/domain_name'')
      [(''serviceKey'', ''TESTKEY''), (''query'', ''example.kr''), (''answer'', ''xml'')] =
      Inr \<lparr>status_code = 500, resp_text = []\<rparr>"
    by (simp add: env_http_500_def env_of_def)
  have failure: "status_code \<lparr>status_code = 500, resp_text = []\<rparr> \<noteq> 200 \<or>
      dict_has ''error''
        (if is_ip_address env_http_500 ''example.kr''
         then parse_ip_whois_xml (xml_fromstring env_http_500)
                (resp_text \<lparr>status_code = 500, resp_text = []\<rparr>) ''example.kr''
         else parse_domain_whois_xml (xml_fromstring env_http_500)
                (resp_text \<lparr>status_code = 500, resp_text = []\<rparr>) ''example.kr'')"
    by simp
  from lookup_whois_failure_outcome [OF key valid client answer failure]
  show ?thesis by auto
qed

text \<open>
  C2 as stated fails on where the message is: with an upstream that answers HTTP 500, and
  with one whose answer has no \<open>krdomain\<close> node, the outcome has the status \<open>error\<close> and the
  message under \<open>data\<close>, and looking up \<open>error\<close> in the outcome finds nothing.
\<close>

theorem lookup_whois_error_under_data:
  "lookup_whois env_http_500 ''example.kr'' None [] =
     ([(''query'', PStr ''example.kr''), (''status'', PStr ''error''),
       (''data'', PDict [(''error'', PStr (msg_api_failed_http @ ''500'')),
                         (''query'', PStr ''example.kr'')]),
       (''query_time'', PStr ''2024-05-01T12:00:00.000000'')],
      [(''http://apis.data.go.kr/B551505/whois/domain_name'',
        [(''serviceKey'', ''TESTKEY''), (''query'', ''example.kr''), (''answer'', ''xml'')])]) \<and>
   dict_get (fst (lookup_whois env_http_500 ''example.kr'' None [])) ''error'' = None \<and>
   lookup_whois env_no_krdomain ''example.kr'' None [] =
     ([(''query'', PStr ''example.kr''), (''status'', PStr ''error''),
       (''data'', PDict [(''error'', PStr msg_krdomain_not_found),
                         (''query'', PStr ''example.kr'')]),
       (''query_time'', PStr ''2024-05-01T12:00:00.000000'')],
      [(''http://apis.data.go.kr/B551505/whois/domain_name'',
        [(''serviceKey'', ''TESTKEY''), (''query'', ''example.kr''), (''answer'', ''xml'')])]) \<and>
   dict_get (fst (lookup_whois env_no_krdomain ''example.kr'' None [])) ''error'' = None"
  by (simp add: lookup_whois_def SERVICE_KEY_def env_http_500_def env_no_krdomain_def env_of_def
      is_ip_address_def query_whois_api_def Let_def str_int_def str_nat.simps dict_has_def
      dict_keys_def dict_get_def parse_domain_whois_xml_def parser_answering_def
      doc_empty_whois_def et_find_def et_findall_def)

text \<open>
  C1, what the code returns for a failure outcome. The outcome of a lookup made without a
  key is exported alone: its row is given an \<open>error\<close> entry, \<open>error\<close> is not among the field
  names, the writer raises, and \<open>save_results_to_csv\<close> returns its error result, leaving a
  file with the header and no row.
\<close>

theorem save_results_to_csv_failure_row:
  "save_results_to_csv writable
     [[(''query'', PStr ''example.kr''), (''status'', PStr ''error''),
       (''error'', PStr msg_key_required)]] ''out.csv'' =
     ([(''status'', PStr ''error''),
       (''error'', PStr (msg_csv_error @ ''dict contains fields not in fieldnames: ''
                           @ [CHR 0x27] @ ''error'' @ [CHR 0x27]))],
      Some (CsvFile [''query'', ''status'', ''query_time''] []))"
  by (simp add: save_results_to_csv_def writable_def py_get_def dict_get_def dict_has_def
      dict_keys_def csv_row_def dict_to_list_def csv_failure_def py_repr_def Let_def)

end
